theory Spec2Isabelle
  imports Complex_Main
begin

section \<open>The mock API client (frontend/src/api/mock-client.ts)\<close>

text \<open>
  Conventions of the embedding.
  \<^item> A \<^verbatim>\<open>Date\<close> is the integer of milliseconds since the epoch that \<^verbatim>\<open>getTime()\<close>
    returns; an ISO string produced by \<^verbatim>\<open>toISOString()\<close> is identified with that integer.
  \<^item> Every clock read (\<^verbatim>\<open>new Date()\<close>, \<^verbatim>\<open>Date.now()\<close>) and every call of
    \<^verbatim>\<open>Math.random()\<close> in a method body is a parameter of the method's model, one parameter
    per occurrence, in program order. Nothing is assumed about two reads of one call being
    equal or ordered.
  \<^item> JavaScript numbers are doubles. Day arithmetic is done on integers: the difference of
    two \<^verbatim>\<open>getTime()\<close> values is exact, and \<^verbatim>\<open>Math.floor(x / 86400000)\<close> agrees with
    integer floor division for every elapsed time below \<open>2^26\<close> days. Random draws and the
    simulated HRV value are reals; the draws evaluated below (0.1, 0.25, 0.5) and the
    values computed from them are exact as doubles, and the threshold 0.3 is the real 3/10.
  \<^item> The methods are \<^verbatim>\<open>async\<close> but contain no \<^verbatim>\<open>await\<close>: each body runs to completion,
    so a call is one state transition.
  \<^item> \<^verbatim>\<open>localStorage\<close> is the typed record of the four keys the client uses; an absent key
    is \<open>None\<close>. The stored JSON arrays are lists of objects, an object being the list of
    its keys and values in insertion order.
\<close>

type_synonym millis = int

datatype jvalue = Str string | Iso millis

type_synonym jobject = "(string \<times> jvalue) list"

datatype DecisionType = Proceed | Delay

datatype ReflectionAnswer = Yes | No | Skip

fun decisionTypeStr :: "DecisionType \<Rightarrow> string" where
  "decisionTypeStr Proceed = ''Proceed''"
| "decisionTypeStr Delay = ''Delay''"

fun reflectionStr :: "ReflectionAnswer \<Rightarrow> string" where
  "reflectionStr Yes = ''Yes''"
| "reflectionStr No = ''No''"
| "reflectionStr Skip = ''Skip''"

record StateCheckResponse =
  should_display :: bool
  event_id :: "string option"
  current_day :: int
  phase :: string
  hrv_current :: "real option"
  hrv_baseline_mean :: "real option"
  timestamp :: millis

record DecisionResponse =
  status :: string
  decision_type :: string
  timestamp :: millis
  next_action :: string
  re_trigger_time :: "millis option"

record CycleReset =
  status :: string
  new_cycle_start :: millis
  current_day :: int

record ReflectionResponse =
  status :: string
  response :: string
  timestamp :: millis
  cycle_reset :: CycleReset

record StateBody =
  user_id :: string
  current_day :: int
  cycle_start_date :: millis
  cooling_period_active :: bool
  decision_locked :: bool
  hrv_baseline_mean :: "real option"
  hrv_baseline_std_dev :: "real option"
  phase :: string

record StateResponse =
  user_id :: string
  state :: StateBody
  timestamp :: millis

record UserCreated =
  status :: string
  user_id :: string
  email :: string
  timezone :: string
  timestamp :: millis

record localStorage =
  omtobe_user_id :: "string option"
  omtobe_cycle_start :: "millis option"
  omtobe_decisions :: "jobject list option"
  omtobe_reflections :: "jobject list option"

text \<open>The object: its four private fields, and the \<^verbatim>\<open>localStorage\<close> it reads and writes.\<close>

record OmtobeMockClient =
  userId :: "string option"
  cycleStartDate :: millis
  lastBrakeTime :: millis
  coolingPeriodActive :: bool
  storage :: localStorage

text \<open>
  JavaScript's \<^verbatim>\<open>%\<close> on integers: the remainder of the truncated division, with the sign
  of the dividend (\<^verbatim>\<open>-1 % 7\<close> is \<^verbatim>\<open>-1\<close>).
\<close>

definition js_rem :: "int \<Rightarrow> int \<Rightarrow> int" where
  "js_rem a b = sgn a * (\<bar>a\<bar> mod \<bar>b\<bar>)"

text \<open>
  The constructor. \<^verbatim>\<open>if (stored)\<close> is false for the empty string as well as for an absent
  key. \<open>tNew\<close> is the clock read of \<^verbatim>\<open>new Date()\<close>, used when no cycle start is stored.
\<close>

definition constructor :: "millis \<Rightarrow> localStorage \<Rightarrow> OmtobeMockClient" where
  "constructor tNew ls =
     \<lparr> userId = (case omtobe_user_id ls of
                   None \<Rightarrow> None
                 | Some stored \<Rightarrow> if stored = [] then None else Some stored),
       cycleStartDate = (case omtobe_cycle_start ls of
                           Some storedCycleStart \<Rightarrow> storedCycleStart
                         | None \<Rightarrow> tNew),
       lastBrakeTime = 0,
       coolingPeriodActive = False,
       storage = ls \<rparr>"

definition setUserId :: "string \<Rightarrow> millis \<Rightarrow> millis \<Rightarrow> OmtobeMockClient \<Rightarrow> OmtobeMockClient" where
  "setUserId uid tStore tStart c =
     c \<lparr> userId := Some uid,
         storage := (storage c) \<lparr> omtobe_user_id := Some uid, omtobe_cycle_start := Some tStore \<rparr>,
         cycleStartDate := tStart \<rparr>"

definition getUserId :: "OmtobeMockClient \<Rightarrow> string option" where
  "getUserId c = userId c"

definition getCurrentDay :: "millis \<Rightarrow> OmtobeMockClient \<Rightarrow> int" where
  "getCurrentDay now c =
     (let daysDiff = (now - cycleStartDate c) div (1000 * 60 * 60 * 24)
      in js_rem daysDiff 7 + 1)"

definition getCurrentPhase :: "millis \<Rightarrow> OmtobeMockClient \<Rightarrow> string" where
  "getCurrentPhase now c =
     (let day = getCurrentDay now c
      in if day \<le> 2 then ''TOTAL_SILENCE''
         else if day \<le> 5 then ''INTERVENTION_LOGIC''
         else ''REFLECTION'')"

definition createUser ::
  "string \<Rightarrow> string \<Rightarrow> string \<Rightarrow> millis \<Rightarrow> millis \<Rightarrow> millis \<Rightarrow> OmtobeMockClient
     \<Rightarrow> UserCreated \<times> OmtobeMockClient" where
  "createUser uid mail tz tStore tStart tStamp c =
     (\<lparr> UserCreated.status = ''user_created'',
        UserCreated.user_id = uid,
        email = mail,
        timezone = tz,
        UserCreated.timestamp = tStamp \<rparr>,
      setUserId uid tStore tStart c)"

text \<open>
  \<open>tDay\<close> and \<open>tPhase\<close> are the clock reads inside the two calls of \<^verbatim>\<open>getCurrentDay\<close>
  (one of them through \<^verbatim>\<open>getCurrentPhase\<close>), \<open>tBrake\<close> is \<^verbatim>\<open>Date.now()\<close> and \<open>tStamp\<close> the
  response's timestamp. \<open>rDisplay\<close> is the draw compared with 0.3 and \<open>rHrv\<close> the draw that
  makes up the simulated HRV value.
\<close>

definition checkBrakeScreen ::
  "millis \<Rightarrow> millis \<Rightarrow> millis \<Rightarrow> millis \<Rightarrow> real \<Rightarrow> real \<Rightarrow> OmtobeMockClient
     \<Rightarrow> StateCheckResponse \<times> OmtobeMockClient" where
  "checkBrakeScreen tDay tPhase tBrake tStamp rDisplay rHrv c =
     (let day = getCurrentDay tDay c;
          ph = getCurrentPhase tPhase c;
          shouldDisplay = (ph = ''INTERVENTION_LOGIC'' \<and> rDisplay < 0.3)
      in (\<lparr> should_display = shouldDisplay,
            event_id = (if shouldDisplay then Some ''mock_event_001'' else None),
            StateCheckResponse.current_day = day,
            StateCheckResponse.phase = ph,
            hrv_current = Some (45 + rHrv * 15),
            StateCheckResponse.hrv_baseline_mean = Some 60,
            StateCheckResponse.timestamp = tStamp \<rparr>,
          if shouldDisplay then c \<lparr> lastBrakeTime := tBrake \<rparr> else c))"

text \<open>
  \<open>tStamp\<close> is the clock read of the decision's timestamp, \<open>tNow\<close> the later
  \<^verbatim>\<open>Date.now()\<close> of the re-trigger time.
\<close>

definition recordDecision ::
  "DecisionType \<Rightarrow> millis \<Rightarrow> millis \<Rightarrow> OmtobeMockClient \<Rightarrow> DecisionResponse \<times> OmtobeMockClient" where
  "recordDecision decisionType tStamp tNow c =
     (let decision =
            \<lparr> DecisionResponse.status = ''decision_recorded'',
              decision_type = decisionTypeStr decisionType,
              DecisionResponse.timestamp = tStamp,
              next_action = (if decisionType = Delay then ''wait_20_mins''
                             else ''proceed_with_decision''),
              re_trigger_time = (if decisionType = Delay then Some (tNow + 20 * 60 * 1000)
                                 else None) \<rparr>;
          decisions = (case omtobe_decisions (storage c) of None \<Rightarrow> [] | Some ds \<Rightarrow> ds);
          decisions' = decisions @
            [[(''timestamp'', Iso (DecisionResponse.timestamp decision)),
              (''decision_type'', Str (decisionTypeStr decisionType))]]
      in (decision, c \<lparr> storage := (storage c) \<lparr> omtobe_decisions := Some decisions' \<rparr> \<rparr>))"

text \<open>
  The four clock reads, in program order: the reflection's timestamp, \<^verbatim>\<open>new_cycle_start\<close>,
  the value stored under \<^verbatim>\<open>omtobe_cycle_start\<close>, and the new \<^verbatim>\<open>cycleStartDate\<close>.
\<close>

definition recordReflection ::
  "ReflectionAnswer \<Rightarrow> millis \<Rightarrow> millis \<Rightarrow> millis \<Rightarrow> millis \<Rightarrow> OmtobeMockClient
     \<Rightarrow> ReflectionResponse \<times> OmtobeMockClient" where
  "recordReflection resp tStamp tNewStart tStore tStart c =
     (let reflection =
            \<lparr> ReflectionResponse.status = ''reflection_recorded'',
              response = reflectionStr resp,
              ReflectionResponse.timestamp = tStamp,
              cycle_reset = \<lparr> CycleReset.status = ''cycle_reset_initiated'',
                              new_cycle_start = tNewStart,
                              CycleReset.current_day = 1 \<rparr> \<rparr>;
          reflections = (case omtobe_reflections (storage c) of None \<Rightarrow> [] | Some rs \<Rightarrow> rs);
          reflections' = reflections @
            [[(''timestamp'', Iso (ReflectionResponse.timestamp reflection)),
              (''response'', Str (reflectionStr resp))]]
      in (reflection,
          c \<lparr> storage := (storage c) \<lparr> omtobe_reflections := Some reflections',
                                       omtobe_cycle_start := Some tStore \<rparr>,
              cycleStartDate := tStart \<rparr>))"

text \<open>\<^verbatim>\<open>this.userId || 'unknown'\<close>: an absent and an empty user id both give \<^verbatim>\<open>'unknown'\<close>.\<close>

definition userIdOrUnknown :: "OmtobeMockClient \<Rightarrow> string" where
  "userIdOrUnknown c =
     (case userId c of None \<Rightarrow> ''unknown'' | Some u \<Rightarrow> if u = [] then ''unknown'' else u)"

definition getState :: "millis \<Rightarrow> millis \<Rightarrow> millis \<Rightarrow> OmtobeMockClient \<Rightarrow> StateResponse" where
  "getState tDay tPhase tStamp c =
     (let day = getCurrentDay tDay c;
          ph = getCurrentPhase tPhase c
      in \<lparr> StateResponse.user_id = userIdOrUnknown c,
           state = \<lparr> StateBody.user_id = userIdOrUnknown c,
                     StateBody.current_day = day,
                     cycle_start_date = cycleStartDate c,
                     cooling_period_active = coolingPeriodActive c,
                     decision_locked = False,
                     StateBody.hrv_baseline_mean = Some 60,
                     hrv_baseline_std_dev = Some 5,
                     StateBody.phase = ph \<rparr>,
           StateResponse.timestamp = tStamp \<rparr>)"

text \<open>
  A call that changes the client. \<^verbatim>\<open>getState\<close>, \<^verbatim>\<open>getUserId\<close>, \<^verbatim>\<open>healthCheck\<close> and the two
  history getters write nothing, so a sequence of client operations is a list of these.
\<close>

datatype call =
    SetUserId string millis millis
  | CreateUser string string string millis millis millis
  | CheckBrakeScreen millis millis millis millis real real
  | RecordDecision DecisionType millis millis
  | RecordReflection ReflectionAnswer millis millis millis millis

fun exec :: "OmtobeMockClient \<Rightarrow> call \<Rightarrow> OmtobeMockClient" where
  "exec c (SetUserId uid tStore tStart) = setUserId uid tStore tStart c"
| "exec c (CreateUser uid mail tz tStore tStart tStamp) =
     snd (createUser uid mail tz tStore tStart tStamp c)"
| "exec c (CheckBrakeScreen tDay tPhase tBrake tStamp rDisplay rHrv) =
     snd (checkBrakeScreen tDay tPhase tBrake tStamp rDisplay rHrv c)"
| "exec c (RecordDecision decisionType tStamp tNow) =
     snd (recordDecision decisionType tStamp tNow c)"
| "exec c (RecordReflection resp tStamp tNewStart tStore tStart) =
     snd (recordReflection resp tStamp tNewStart tStore tStart c)"

definition run :: "call list \<Rightarrow> OmtobeMockClient \<Rightarrow> OmtobeMockClient" where
  "run calls c = foldl exec c calls"

text \<open>
  A client constructed at the epoch over an empty \<^verbatim>\<open>localStorage\<close>, and an instant three
  and a half days later (day 4 of its cycle), for the concrete evaluations below.
\<close>

definition emptyStorage :: localStorage where
  "emptyStorage =
     \<lparr> omtobe_user_id = None, omtobe_cycle_start = None,
       omtobe_decisions = None, omtobe_reflections = None \<rparr>"

definition freshClient :: OmtobeMockClient where
  "freshClient = constructor 0 emptyStorage"

definition noonDay4 :: millis where
  "noonDay4 = 3 * 86400000 + 43200000"

text \<open>
  The fresh client after a check at that instant whose draw 0.25 displayed the brake
  screen, and the same client after a Proceed decision recorded at once.
\<close>

definition brakeShown :: OmtobeMockClient where
  "brakeShown = snd (checkBrakeScreen noonDay4 noonDay4 noonDay4 noonDay4 0.25 0.5 freshClient)"

definition afterProceed :: OmtobeMockClient where
  "afterProceed = snd (recordDecision Proceed noonDay4 noonDay4 brakeShown)"

text \<open>The response of that check, and the morning of day 7 of the fresh client's cycle.\<close>

definition day4Response :: StateCheckResponse where
  "day4Response = fst (checkBrakeScreen noonDay4 noonDay4 noonDay4 noonDay4 0.25 0.5 freshClient)"

definition day7Morning :: millis where
  "day7Morning = 6 * 86400000 + 32400000"

section \<open>The demo context (contexts/DemoContext.tsx) and the auto-trigger of App.tsx\<close>

text \<open>
  The string-literal unions of the data fields (\<^verbatim>\<open>status\<close>, \<^verbatim>\<open>riskLevel\<close>, \<^verbatim>\<open>decision\<close>,
  \<^verbatim>\<open>outcome\<close>, \<^verbatim>\<open>phase\<close>) are strings; the unions that select a branch are datatypes.
  Locale-formatted times (\<^verbatim>\<open>toLocaleTimeString\<close>, \<^verbatim>\<open>toLocaleString\<close>) are string
  parameters. The field \<^verbatim>\<open>id\<close> of an event is \<open>id'\<close>.
\<close>

record HRVData =
  current :: real
  baseline :: real
  change :: real
  status :: string

record CalendarEvent =
  id' :: string
  title :: string
  startTime :: string
  endTime :: string
  riskLevel :: string

record InterventionRecord =
  timestamp :: string
  decision :: string
  outcome :: string

record DemoState =
  isDemoMode :: bool
  currentDay :: int
  phase :: string
  hrv :: HRVData
  activeEvents :: "CalendarEvent list"
  interventionHistory :: "InterventionRecord list"

datatype HRVPreset = Normal | Stressed | Critical | Panic

datatype EventType = NoEvent | Board | Negotiation | Highstakes

datatype ScreenState = Void | Brake | Reflection | Onboarding

definition initialHRV :: HRVData where
  "initialHRV = \<lparr> current = 50, baseline = 50, change = 0, HRVData.status = ''normal'' \<rparr>"

definition initialState :: DemoState where
  "initialState =
     \<lparr> isDemoMode = False, currentDay = 1, DemoState.phase = ''Total Silence'',
       hrv = initialHRV, activeEvents = [], interventionHistory = [] \<rparr>"

definition toggleDemoMode :: "DemoState \<Rightarrow> DemoState" where
  "toggleDemoMode prev = prev \<lparr> isDemoMode := \<not> isDemoMode prev \<rparr>"

fun setHRV :: "HRVPreset \<Rightarrow> DemoState \<Rightarrow> DemoState" where
  "setHRV Stressed prev =
     prev \<lparr> hrv := \<lparr> current = 45, baseline = 50, change = - 10, HRVData.status = ''elevated'' \<rparr> \<rparr>"
| "setHRV Critical prev =
     prev \<lparr> hrv := \<lparr> current = 40, baseline = 50, change = - 20, HRVData.status = ''critical'' \<rparr> \<rparr>"
| "setHRV Panic prev =
     prev \<lparr> hrv := \<lparr> current = 35, baseline = 50, change = - 30, HRVData.status = ''critical'' \<rparr> \<rparr>"
| "setHRV Normal prev =
     prev \<lparr> hrv := \<lparr> current = 50, baseline = 50, change = 0, HRVData.status = ''normal'' \<rparr> \<rparr>"

fun setCalendarEvent :: "EventType \<Rightarrow> string \<Rightarrow> string \<Rightarrow> DemoState \<Rightarrow> DemoState" where
  "setCalendarEvent Board start end prev =
     prev \<lparr> activeEvents :=
       [\<lparr> id' = ''1'', title = ''Board Meeting'', startTime = start, endTime = end,
          riskLevel = ''high'' \<rparr>] \<rparr>"
| "setCalendarEvent Negotiation start end prev =
     prev \<lparr> activeEvents :=
       [\<lparr> id' = ''2'', title = ''Contract Negotiation'', startTime = start, endTime = end,
          riskLevel = ''high'' \<rparr>] \<rparr>"
| "setCalendarEvent Highstakes start end prev =
     prev \<lparr> activeEvents :=
       [\<lparr> id' = ''3'', title = ''! High-Stakes Decision'', startTime = start, endTime = end,
          riskLevel = ''high'' \<rparr>] \<rparr>"
| "setCalendarEvent NoEvent start end prev = prev \<lparr> activeEvents := [] \<rparr>"

definition addIntervention :: "DecisionType \<Rightarrow> string \<Rightarrow> DemoState \<Rightarrow> DemoState" where
  "addIntervention d stamp prev =
     (let intervention =
            \<lparr> InterventionRecord.timestamp = stamp,
              decision = decisionTypeStr d,
              outcome = (if d = Proceed then ''Completed'' else ''Delayed'') \<rparr>
      in prev \<lparr> interventionHistory := take 5 (intervention # interventionHistory prev) \<rparr>)"

definition setDay :: "int \<Rightarrow> DemoState \<Rightarrow> DemoState" where
  "setDay day prev =
     prev \<lparr> currentDay := day,
            DemoState.phase := (if day \<le> 2 then ''Total Silence''
                                else if day \<le> 5 then ''Intervention Logic''
                                else if day = 7 then ''Reflection''
                                else ''Observation'') \<rparr>"

definition resetDemo :: "DemoState \<Rightarrow> DemoState" where
  "resetDemo prev = initialState"

text \<open>
  The operations the provider hands out, and the demo states they reach from the initial
  state. A state that the provider loads from \<^verbatim>\<open>localStorage\<close> is one it saved after
  such operations in an earlier session.
\<close>

datatype demoAction =
    ToggleDemoMode
  | SetHRV HRVPreset
  | SetCalendarEvent EventType string string
  | AddIntervention DecisionType string
  | SetDay int
  | ResetDemo

fun demoStep :: "DemoState \<Rightarrow> demoAction \<Rightarrow> DemoState" where
  "demoStep s ToggleDemoMode = toggleDemoMode s"
| "demoStep s (SetHRV preset) = setHRV preset s"
| "demoStep s (SetCalendarEvent eventType start end) = setCalendarEvent eventType start end s"
| "demoStep s (AddIntervention d stamp) = addIntervention d stamp s"
| "demoStep s (SetDay day) = setDay day s"
| "demoStep s ResetDemo = resetDemo s"

definition demoRun :: "demoAction list \<Rightarrow> DemoState" where
  "demoRun acts = foldl demoStep initialState acts"

text \<open>
  The condition of the auto-trigger effect of \<^verbatim>\<open>AppContent\<close>: when it holds, the effect
  schedules the switch to the brake screen.
\<close>

definition autoTriggerEffect :: "DemoState \<Rightarrow> ScreenState \<Rightarrow> bool" where
  "autoTriggerEffect demoState screen =
     (isDemoMode demoState \<and>
      change (hrv demoState) \<le> - 20 \<and>
      length (activeEvents demoState) > 0 \<and>
      currentDay demoState \<ge> 3 \<and>
      currentDay demoState \<le> 5 \<and>
      screen = Void)"

text \<open>
  \<^verbatim>\<open>handleBrakeDecision\<close>: the demo state and the screen after the decision, and the delay in
  milliseconds of the timer that calls \<^verbatim>\<open>checkBrakeScreen\<close> again, when one is set.
\<close>

definition handleBrakeDecision ::
  "DecisionType \<Rightarrow> string \<Rightarrow> DemoState \<Rightarrow> DemoState \<times> ScreenState \<times> int option" where
  "handleBrakeDecision d stamp demoState =
     (if isDemoMode demoState then addIntervention d stamp demoState else demoState,
      Void,
      if d = Delay then Some 1200000 else None)"

text \<open>
  What the provider's operations keep true of the demo state: the baseline is 50, the
  stored change is the percentage by which the current value differs from the baseline,
  and every active event has risk level high.
\<close>

definition demoInv :: "DemoState \<Rightarrow> bool" where
  "demoInv d =
     (baseline (hrv d) = 50 \<and>
      change (hrv d) = (current (hrv d) / baseline (hrv d) - 1) * 100 \<and>
      list_all (\<lambda>e. riskLevel e = ''high'') (activeEvents d))"

text \<open>A demo session: demo mode on, day 4, the critical HRV preset, a board meeting.\<close>

definition demoDay4 :: DemoState where
  "demoDay4 =
     demoRun [ToggleDemoMode, SetDay 4, SetHRV Critical,
              SetCalendarEvent Board ''09:00 AM'' ''10:00 AM'']"

section \<open>The day of the cycle\<close>

lemma js_rem_nonneg: "0 \<le> a \<Longrightarrow> js_rem a 7 = a mod 7"
  by (cases "a = 0") (simp_all add: js_rem_def)

text \<open>
  C3. For every clock reading at or after the cycle start, the current day is
  floor((now - cycleStartDate) / one day) mod 7, plus 1: an integer from 1 to 7. At exactly
  seven elapsed days it is 1 again: there is no day 8.
\<close>

theorem getCurrentDay_in_cycle:
  "cycleStartDate c \<le> now \<Longrightarrow>
     getCurrentDay now c = ((now - cycleStartDate c) div 86400000) mod 7 + 1 \<and>
     1 \<le> getCurrentDay now c \<and> getCurrentDay now c \<le> 7 \<and>
     getCurrentDay (cycleStartDate c + 7 * 86400000) c = 1"
proof -
  assume "cycleStartDate c \<le> now"
  then have "0 \<le> (now - cycleStartDate c) div 86400000"
    by (simp add: pos_imp_zdiv_nonneg_iff)
  then have eq: "getCurrentDay now c = ((now - cycleStartDate c) div 86400000) mod 7 + 1"
    by (simp add: getCurrentDay_def js_rem_nonneg)
  have wrap: "getCurrentDay (cycleStartDate c + 7 * 86400000) c = 1"
    by (simp add: getCurrentDay_def js_rem_def)
  from eq wrap show ?thesis by simp
qed

theorem getCurrentDay_in_cycle_witness:
  "cycleStartDate freshClient \<le> noonDay4 \<and> getCurrentDay noonDay4 freshClient = 4 \<and>
   getCurrentDay (7 * 86400000) freshClient = 1"
  using getCurrentDay_in_cycle [of freshClient noonDay4]
  by (simp add: freshClient_def constructor_def emptyStorage_def noonDay4_def)

text \<open>
  C4. For a client whose cycle started at an instant T, a clock reading one millisecond
  before T gives current day 0, not 1: the elapsed days are \<open>-1\<close>, JavaScript's remainder
  keeps the sign of the dividend, and nothing clamps the result.
\<close>

theorem getCurrentDay_clock_skew:
  "getCurrentDay (noonDay4 - 1) (constructor noonDay4 emptyStorage) = 0"
  by (simp add: getCurrentDay_def js_rem_def constructor_def emptyStorage_def noonDay4_def)

section \<open>The trigger check\<close>

lemma should_display_iff:
  "should_display (fst (checkBrakeScreen tDay tPhase tBrake tStamp rDisplay rHrv c)) =
     (getCurrentPhase tPhase c = ''INTERVENTION_LOGIC'' \<and> rDisplay < 0.3)"
  by (simp add: checkBrakeScreen_def Let_def)

lemma phase_intervention_iff:
  "(getCurrentPhase t c = ''INTERVENTION_LOGIC'') =
     (3 \<le> getCurrentDay t c \<and> getCurrentDay t c \<le> 5)"
  by (auto simp add: getCurrentPhase_def Let_def)

text \<open>
  C2. When the day on which the check computes the phase is 1, 2 or 7, the phase is not
  INTERVENTION_LOGIC and the check returns should_display = false, whatever the random
  draws and whatever HRV value the response reports.
\<close>

theorem checkBrakeScreen_silent_days:
  "getCurrentDay tPhase c \<in> {1, 2, 7} \<Longrightarrow>
     getCurrentPhase tPhase c \<noteq> ''INTERVENTION_LOGIC'' \<and>
     should_display (fst (checkBrakeScreen tDay tPhase tBrake tStamp rDisplay rHrv c)) = False"
  unfolding should_display_iff phase_intervention_iff by auto

theorem checkBrakeScreen_silent_days_witness:
  "getCurrentDay (noonDay4 + 3 * 86400000) freshClient \<in> {1, 2, 7} \<and>
   should_display (fst (checkBrakeScreen (noonDay4 + 3 * 86400000) (noonDay4 + 3 * 86400000)
     (noonDay4 + 3 * 86400000) (noonDay4 + 3 * 86400000) 0.1 0 freshClient)) = False \<and>
   hrv_current (fst (checkBrakeScreen (noonDay4 + 3 * 86400000) (noonDay4 + 3 * 86400000)
     (noonDay4 + 3 * 86400000) (noonDay4 + 3 * 86400000) 0.1 0 freshClient)) = Some 45"
proof -
  have day: "getCurrentDay (noonDay4 + 3 * 86400000) freshClient \<in> {1, 2, 7}"
    by (simp add: getCurrentDay_def js_rem_def freshClient_def constructor_def
        emptyStorage_def noonDay4_def)
  have hrv: "hrv_current (fst (checkBrakeScreen (noonDay4 + 3 * 86400000)
      (noonDay4 + 3 * 86400000) (noonDay4 + 3 * 86400000) (noonDay4 + 3 * 86400000)
      0.1 0 freshClient)) = Some 45"
    by (simp add: checkBrakeScreen_def Let_def)
  from checkBrakeScreen_silent_days [OF day] day hrv show ?thesis by simp
qed

section \<open>Decisions\<close>

text \<open>
  C6. A Delay decision returns a re-trigger time of exactly 20 minutes (1200000 ms) after
  the instant T that \<^verbatim>\<open>Date.now()\<close> reads when the decision is recorded; when the timestamp
  of the decision is read in the same millisecond, that is the timestamp plus 20 minutes.
  A Proceed decision returns no re-trigger time. The timer that \<^verbatim>\<open>handleBrakeDecision\<close>
  sets after a Delay has the same length, and none is set after a Proceed.
\<close>

theorem recordDecision_re_trigger_time:
  "re_trigger_time (fst (recordDecision Delay tStamp T c)) = Some (T + 20 * 60 * 1000) \<and>
   re_trigger_time (fst (recordDecision Delay T T c)) =
     Some (DecisionResponse.timestamp (fst (recordDecision Delay T T c)) + 1200000) \<and>
   re_trigger_time (fst (recordDecision Proceed tStamp T c)) = None \<and>
   snd (snd (handleBrakeDecision Delay stamp demoState)) = Some (20 * 60 * 1000) \<and>
   snd (snd (handleBrakeDecision Proceed stamp demoState)) = None"
  by (simp add: recordDecision_def handleBrakeDecision_def Let_def)

lemma recordDecision_state:
  "snd (recordDecision d tStamp tNow c) =
     c \<lparr> storage := (storage c) \<lparr> omtobe_decisions :=
       Some ((case omtobe_decisions (storage c) of None \<Rightarrow> [] | Some ds \<Rightarrow> ds) @
             [[(''timestamp'', Iso tStamp), (''decision_type'', Str (decisionTypeStr d))]]) \<rparr> \<rparr>"
  by (simp add: recordDecision_def Let_def)

lemma getCurrentDay_cong:
  "cycleStartDate c' = cycleStartDate c \<Longrightarrow> getCurrentDay t c' = getCurrentDay t c"
  by (simp add: getCurrentDay_def)

lemma getCurrentPhase_cong:
  "cycleStartDate c' = cycleStartDate c \<Longrightarrow> getCurrentPhase t c' = getCurrentPhase t c"
  using getCurrentDay_cong [of c' c t] by (simp add: getCurrentPhase_def)

lemma noonDay4_fresh: "getCurrentDay noonDay4 freshClient = 4"
  by (simp add: getCurrentDay_def js_rem_def freshClient_def constructor_def
      emptyStorage_def noonDay4_def)

lemma noonDay4_phase: "getCurrentPhase noonDay4 freshClient = ''INTERVENTION_LOGIC''"
  by (simp add: getCurrentPhase_def noonDay4_fresh)

lemma brakeShown_cycle: "cycleStartDate brakeShown = cycleStartDate freshClient"
  by (simp add: brakeShown_def checkBrakeScreen_def Let_def)

lemma afterProceed_cycle: "cycleStartDate afterProceed = cycleStartDate freshClient"
  by (simp add: afterProceed_def recordDecision_state brakeShown_cycle)

text \<open>
  C7, as the code has it. Recording a Proceed decision appends one record to the stored
  decisions, answers with next_action proceed_with_decision and changes nothing else.
  There is no decision lock: \<^verbatim>\<open>getState\<close> goes on reporting decision_locked = false, and
  a following trigger check returns what it would have returned without the decision,
  so it displays again whenever the phase is INTERVENTION_LOGIC and its draw is below 0.3.
\<close>

theorem recordDecision_Proceed_no_lock:
  "snd (recordDecision Proceed tStamp tNow c) =
     c \<lparr> storage := (storage c) \<lparr> omtobe_decisions :=
       Some ((case omtobe_decisions (storage c) of None \<Rightarrow> [] | Some ds \<Rightarrow> ds) @
             [[(''timestamp'', Iso tStamp), (''decision_type'', Str ''Proceed'')]]) \<rparr> \<rparr> \<and>
   next_action (fst (recordDecision Proceed tStamp tNow c)) = ''proceed_with_decision'' \<and>
   decision_locked (state (getState t1 t2 t3 (snd (recordDecision Proceed tStamp tNow c)))) = False \<and>
   should_display (fst (checkBrakeScreen tDay tPhase tBrake tStamp' rDisplay rHrv
       (snd (recordDecision Proceed tStamp tNow c)))) =
     (getCurrentPhase tPhase c = ''INTERVENTION_LOGIC'' \<and> rDisplay < 0.3)"
proof -
  have "cycleStartDate (snd (recordDecision Proceed tStamp tNow c)) = cycleStartDate c"
    by (simp add: recordDecision_state)
  then have "getCurrentPhase tPhase (snd (recordDecision Proceed tStamp tNow c)) =
      getCurrentPhase tPhase c"
    by (rule getCurrentPhase_cong)
  moreover have "next_action (fst (recordDecision Proceed tStamp tNow c)) =
      ''proceed_with_decision''"
    by (simp add: recordDecision_def Let_def)
  moreover have "decision_locked (state (getState t1 t2 t3
      (snd (recordDecision Proceed tStamp tNow c)))) = False"
    by (simp add: getState_def Let_def)
  ultimately show ?thesis
    by (simp add: should_display_iff recordDecision_state)
qed

text \<open>
  C7 as stated fails at noon of day 4: the check displays, Proceed is recorded at once, the
  state reports no lock, and the check with the same clock readings and draws displays
  again.
\<close>

theorem proceed_lock_counterexample:
  "should_display (fst (checkBrakeScreen noonDay4 noonDay4 noonDay4 noonDay4 0.25 0.5 freshClient)) \<and>
   decision_locked (state (getState noonDay4 noonDay4 noonDay4 afterProceed)) = False \<and>
   should_display (fst (checkBrakeScreen noonDay4 noonDay4 noonDay4 noonDay4 0.25 0.5 afterProceed))"
proof -
  have "getCurrentPhase noonDay4 afterProceed = ''INTERVENTION_LOGIC''"
    using getCurrentPhase_cong [OF afterProceed_cycle] noonDay4_phase by simp
  then show ?thesis
    by (simp add: should_display_iff noonDay4_phase getState_def Let_def)
qed

text \<open>
  C9, as the code has it. The record that a decision appends to the stored decisions has
  exactly the two fields timestamp and decision_type, in this order: the decision's
  timestamp and the decision type, Proceed or Delay. It has no day field, and nothing of
  an event or of an HRV value. The earlier records are kept as they are.
\<close>

theorem recordDecision_persisted_fields:
  "omtobe_decisions (storage (snd (recordDecision d tStamp tNow c))) =
     Some ((case omtobe_decisions (storage c) of None \<Rightarrow> [] | Some ds \<Rightarrow> ds) @
           [[(''timestamp'', Iso tStamp), (''decision_type'', Str (decisionTypeStr d))]]) \<and>
   map fst (last (the (omtobe_decisions (storage (snd (recordDecision d tStamp tNow c)))))) =
     [''timestamp'', ''decision_type''] \<and>
   decisionTypeStr d \<in> {''Proceed'', ''Delay''}"
  by (cases d) (simp_all add: recordDecision_state)

text \<open>
  C9 as stated fails: the record persisted for a Proceed decision on day 4 has no field
  named day.
\<close>

theorem decision_record_day_counterexample:
  "''day'' \<notin> set (map fst (last (the (omtobe_decisions (storage afterProceed)))))"
  by (simp add: afterProceed_def recordDecision_state)

section \<open>Determinism of the trigger check\<close>

text \<open>
  C8, as the code has it. should_display is a function of the cycle start, of the instant
  at which the check computes the phase, and of the random draw: two evaluations that
  agree on the first two and whose draws fall on the same side of 0.3 return the same
  value, whatever else differs, and an evaluation leaves the cycle start as it was, so
  that it does not change what a later evaluation returns. State, inputs and timestamp
  alone do not determine should_display.
\<close>

theorem checkBrakeScreen_determined_by_draw:
  "cycleStartDate c' = cycleStartDate c \<Longrightarrow> (rDisplay' < 0.3) = (rDisplay < 0.3) \<Longrightarrow>
     should_display (fst (checkBrakeScreen tDay' tPhase tBrake' tStamp' rDisplay' rHrv' c')) =
       should_display (fst (checkBrakeScreen tDay tPhase tBrake tStamp rDisplay rHrv c)) \<and>
     cycleStartDate (snd (checkBrakeScreen tDay tPhase tBrake tStamp rDisplay rHrv c)) =
       cycleStartDate c"
proof -
  assume same: "cycleStartDate c' = cycleStartDate c" and draws: "(rDisplay' < 0.3) = (rDisplay < 0.3)"
  have "getCurrentPhase tPhase c' = getCurrentPhase tPhase c"
    using same by (rule getCurrentPhase_cong)
  with draws have "should_display (fst (checkBrakeScreen tDay' tPhase tBrake' tStamp' rDisplay' rHrv' c')) =
      should_display (fst (checkBrakeScreen tDay tPhase tBrake tStamp rDisplay rHrv c))"
    by (simp add: should_display_iff)
  moreover have "cycleStartDate (snd (checkBrakeScreen tDay tPhase tBrake tStamp rDisplay rHrv c)) =
      cycleStartDate c"
    by (simp add: checkBrakeScreen_def Let_def)
  ultimately show ?thesis by simp
qed

theorem checkBrakeScreen_determined_by_draw_witness:
  "cycleStartDate brakeShown = cycleStartDate freshClient \<and>
   ((0.1::real) < 0.3) = ((0.25::real) < 0.3) \<and>
   should_display (fst (checkBrakeScreen 0 noonDay4 1 2 0.1 0.9 brakeShown)) =
     should_display (fst (checkBrakeScreen noonDay4 noonDay4 noonDay4 noonDay4 0.25 0.5 freshClient)) \<and>
   should_display (fst (checkBrakeScreen 0 noonDay4 1 2 0.1 0.9 brakeShown))"
proof -
  have draws: "((0.1::real) < 0.3) = ((0.25::real) < 0.3)" by simp
  note inst = checkBrakeScreen_determined_by_draw [OF brakeShown_cycle draws,
      of 0 noonDay4 1 2 "0.9" noonDay4 noonDay4 noonDay4 "0.5"]
  have "should_display (fst (checkBrakeScreen noonDay4 noonDay4 noonDay4 noonDay4 0.25 0.5
      freshClient))"
    by (simp add: should_display_iff noonDay4_phase)
  with inst brakeShown_cycle show ?thesis by simp
qed

text \<open>
  C8 as stated fails: two checks of the same client with the same clock readings, one drawing 0.25 and the
  other 0.5, return different values of should_display.
\<close>

theorem same_inputs_counterexample:
  "should_display (fst (checkBrakeScreen noonDay4 noonDay4 noonDay4 noonDay4 0.25 0.5 freshClient)) \<noteq>
   should_display (fst (checkBrakeScreen noonDay4 noonDay4 noonDay4 noonDay4 0.5 0.5 freshClient))"
  by (simp add: should_display_iff noonDay4_phase)

section \<open>Cooling period and decision lock\<close>

lemma exec_cooling: "coolingPeriodActive (exec c k) = coolingPeriodActive c"
  by (cases k)
     (simp_all add: setUserId_def createUser_def checkBrakeScreen_def recordDecision_def
        recordReflection_def Let_def)

lemma foldl_exec_cooling: "coolingPeriodActive (foldl exec c calls) = coolingPeriodActive c"
  by (induction calls arbitrary: c) (simp_all add: exec_cooling)

lemma run_cooling: "coolingPeriodActive (run calls (constructor tNew ls)) = False"
  by (simp add: run_def foldl_exec_cooling constructor_def)

text \<open>
  C10. After any sequence of client operations on a newly constructed client, over any
  stored data, the state that \<^verbatim>\<open>getState\<close> reports has cooling_period_active = false and
  decision_locked = false.
\<close>

theorem getState_never_cooling_never_locked:
  "cooling_period_active (state (getState tDay tPhase tStamp (run calls (constructor tNew ls)))) = False \<and>
   decision_locked (state (getState tDay tPhase tStamp (run calls (constructor tNew ls)))) = False"
  by (simp add: getState_def Let_def run_cooling)

section \<open>The two trigger conditions\<close>

lemma demoInv_initial: "demoInv initialState"
  by (simp add: demoInv_def initialState_def initialHRV_def)

lemma demoStep_inv: "demoInv s \<Longrightarrow> demoInv (demoStep s a)"
proof (cases a)
  case (SetHRV preset)
  assume "demoInv s"
  then show ?thesis unfolding SetHRV by (cases preset) (simp_all add: demoInv_def)
next
  case (SetCalendarEvent eventType t1 t2)
  assume "demoInv s"
  then show ?thesis unfolding SetCalendarEvent by (cases eventType) (simp_all add: demoInv_def)
next
  case ResetDemo
  then show ?thesis by (simp add: resetDemo_def demoInv_initial)
qed (simp_all add: demoInv_def toggleDemoMode_def addIntervention_def setDay_def Let_def)

lemma foldl_demoStep_inv: "demoInv s \<Longrightarrow> demoInv (foldl demoStep s acts)"
  by (induction acts arbitrary: s) (simp_all add: demoStep_inv)

lemma demoRun_inv: "demoInv (demoRun acts)"
  unfolding demoRun_def by (rule foldl_demoStep_inv [OF demoInv_initial])

lemma demoInv_trigger:
  assumes "demoInv d"
  shows "(change (hrv d) \<le> - 20 \<and> length (activeEvents d) > 0) =
         (current (hrv d) / baseline (hrv d) \<le> 0.8 \<and>
          (\<exists>e \<in> set (activeEvents d). riskLevel e = ''high''))"
proof -
  from assms have b: "baseline (hrv d) = 50"
    and ch: "change (hrv d) = (current (hrv d) / baseline (hrv d) - 1) * 100"
    and ev: "\<forall>e \<in> set (activeEvents d). riskLevel e = ''high''"
    by (simp_all add: demoInv_def list_all_iff)
  have "(change (hrv d) \<le> - 20) = (current (hrv d) / baseline (hrv d) \<le> 0.8)"
    unfolding ch b by simp
  moreover have "(length (activeEvents d) > 0) =
      (\<exists>e \<in> set (activeEvents d). riskLevel e = ''high'')"
    using ev by (cases "activeEvents d") auto
  ultimately show ?thesis by simp
qed

text \<open>
  C1, as the code has it. The mock client's trigger check takes no HRV reading and no
  event: on days 3 to 5 it returns should_display = true exactly when its random draw is
  below 0.3, and on no other day. The conjunction of the two conditions is what the
  demo-mode auto-trigger of the application tests: in every demo state reached through
  the provider's operations it fires exactly when demo mode is on, the screen is the void,
  the day is 3 to 5, the ratio current/baseline is at most 0.8 and at least one active
  event of risk level high exists.
\<close>

theorem trigger_conditions:
  "should_display (fst (checkBrakeScreen tDay tPhase tBrake tStamp rDisplay rHrv c)) =
     (3 \<le> getCurrentDay tPhase c \<and> getCurrentDay tPhase c \<le> 5 \<and> rDisplay < 0.3) \<and>
   autoTriggerEffect (demoRun acts) screen =
     (isDemoMode (demoRun acts) \<and> screen = Void \<and>
      3 \<le> currentDay (demoRun acts) \<and> currentDay (demoRun acts) \<le> 5 \<and>
      current (hrv (demoRun acts)) / baseline (hrv (demoRun acts)) \<le> 0.8 \<and>
      (\<exists>e \<in> set (activeEvents (demoRun acts)). riskLevel e = ''high''))"
proof -
  have "should_display (fst (checkBrakeScreen tDay tPhase tBrake tStamp rDisplay rHrv c)) =
      (3 \<le> getCurrentDay tPhase c \<and> getCurrentDay tPhase c \<le> 5 \<and> rDisplay < 0.3)"
    by (simp add: should_display_iff phase_intervention_iff)
  moreover have "autoTriggerEffect (demoRun acts) screen =
     (isDemoMode (demoRun acts) \<and> screen = Void \<and>
      3 \<le> currentDay (demoRun acts) \<and> currentDay (demoRun acts) \<le> 5 \<and>
      current (hrv (demoRun acts)) / baseline (hrv (demoRun acts)) \<le> 0.8 \<and>
      (\<exists>e \<in> set (activeEvents (demoRun acts)). riskLevel e = ''high''))"
    using demoInv_trigger [OF demoRun_inv, of acts]
    unfolding autoTriggerEffect_def by blast
  ultimately show ?thesis by simp
qed

lemma demoDay4_eval:
  "isDemoMode demoDay4" "currentDay demoDay4 = 4" "change (hrv demoDay4) = - 20"
  "current (hrv demoDay4) = 40" "baseline (hrv demoDay4) = 50"
  "length (activeEvents demoDay4) = 1"
  by (simp_all add: demoDay4_def demoRun_def initialState_def initialHRV_def
      toggleDemoMode_def setDay_def)

theorem trigger_conditions_witness:
  "autoTriggerEffect demoDay4 Void \<and>
   current (hrv demoDay4) / baseline (hrv demoDay4) \<le> 0.8 \<and>
   (\<exists>e \<in> set (activeEvents demoDay4). riskLevel e = ''high'')"
proof -
  have fires: "autoTriggerEffect demoDay4 Void"
    by (simp add: autoTriggerEffect_def demoDay4_eval)
  from trigger_conditions [of 0 0 0 0 0 0 freshClient
      "[ToggleDemoMode, SetDay 4, SetHRV Critical, SetCalendarEvent Board ''09:00 AM'' ''10:00 AM'']"
      Void]
  have "autoTriggerEffect demoDay4 Void =
     (isDemoMode demoDay4 \<and> Void = Void \<and> 3 \<le> currentDay demoDay4 \<and> currentDay demoDay4 \<le> 5 \<and>
      current (hrv demoDay4) / baseline (hrv demoDay4) \<le> 0.8 \<and>
      (\<exists>e \<in> set (activeEvents demoDay4). riskLevel e = ''high''))"
    unfolding demoDay4_def by (rule conjunct2)
  with fires show ?thesis by blast
qed

text \<open>
  C1 as stated fails: on day 4 the mock check displays the brake screen although the HRV value it reports,
  52.5 against a baseline of 60, is a ratio of 0.875, above 0.8.
\<close>

theorem hrv_ratio_counterexample:
  "StateCheckResponse.current_day day4Response = 4 \<and>
   should_display day4Response \<and>
   hrv_current day4Response = Some 52.5 \<and>
   StateCheckResponse.hrv_baseline_mean day4Response = Some 60 \<and>
   the (hrv_current day4Response) / the (StateCheckResponse.hrv_baseline_mean day4Response) > 0.8"
proof -
  have "should_display day4Response"
    unfolding day4Response_def by (simp add: should_display_iff noonDay4_phase)
  moreover have "StateCheckResponse.current_day day4Response = 4"
    unfolding day4Response_def by (simp add: checkBrakeScreen_def Let_def noonDay4_fresh)
  moreover have "hrv_current day4Response = Some 52.5"
    "StateCheckResponse.hrv_baseline_mean day4Response = Some 60"
    unfolding day4Response_def by (simp_all add: checkBrakeScreen_def Let_def)
  ultimately show ?thesis by simp
qed

section \<open>Reflection and cycle reset\<close>

lemma recordReflection_state:
  "snd (recordReflection resp tStamp tNewStart tStore tStart c) =
     c \<lparr> storage := (storage c) \<lparr> omtobe_reflections :=
             Some ((case omtobe_reflections (storage c) of None \<Rightarrow> [] | Some rs \<Rightarrow> rs) @
                   [[(''timestamp'', Iso tStamp), (''response'', Str (reflectionStr resp))]]),
             omtobe_cycle_start := Some tStore \<rparr>,
         cycleStartDate := tStart \<rparr>"
  by (simp add: recordReflection_def Let_def)

lemma div_day_bounds:
  "(0::int) \<le> x \<Longrightarrow> x < 2 * 86400000 \<Longrightarrow> 0 \<le> x div 86400000 \<and> x div 86400000 < 2"
  by linarith

lemma first_two_days:
  assumes "cycleStartDate c \<le> t" and "t < cycleStartDate c + 2 * 86400000"
  shows "getCurrentDay t c \<le> 2"
proof -
  from assms have "0 \<le> t - cycleStartDate c" and "t - cycleStartDate c < 2 * 86400000"
    by simp_all
  then have lo: "0 \<le> (t - cycleStartDate c) div 86400000"
    and hi: "(t - cycleStartDate c) div 86400000 < 2"
    using div_day_bounds [of "t - cycleStartDate c"] by simp_all
  then have "((t - cycleStartDate c) div 86400000) mod 7 = (t - cycleStartDate c) div 86400000"
    by simp
  with lo hi show ?thesis
    by (simp add: getCurrentDay_def js_rem_nonneg)
qed

text \<open>
  C5. On a client reached by any sequence of operations, recording a reflection appends
  one record (timestamp and response) to the stored reflections and resets the cycle:
  the cycle start becomes the clock reading of the reset (and a reading of the same
  moment is stored under omtobe_cycle_start), the current day at that reading is 1 and
  the response announces day 1, and the reported state has no cooling period and no
  decision lock. Another response value changes the appended record and nothing else.
  A trigger check that computes its phase within the first two days of the new cycle,
  so also immediately after the reset, returns should_display = false.
\<close>

theorem recordReflection_resets_cycle:
  assumes "c = run calls (constructor tNew ls)"
    and "tStart \<le> tPhase" and "tPhase < tStart + 2 * 86400000"
  shows
   "omtobe_reflections (storage (snd (recordReflection resp tStamp tNewStart tStore tStart c))) =
      Some ((case omtobe_reflections (storage c) of None \<Rightarrow> [] | Some rs \<Rightarrow> rs) @
            [[(''timestamp'', Iso tStamp), (''response'', Str (reflectionStr resp))]]) \<and>
    cycleStartDate (snd (recordReflection resp tStamp tNewStart tStore tStart c)) = tStart \<and>
    omtobe_cycle_start (storage (snd (recordReflection resp tStamp tNewStart tStore tStart c))) =
      Some tStore \<and>
    getCurrentDay tStart (snd (recordReflection resp tStamp tNewStart tStore tStart c)) = 1 \<and>
    CycleReset.current_day
      (cycle_reset (fst (recordReflection resp tStamp tNewStart tStore tStart c))) = 1 \<and>
    cooling_period_active (state (getState t1 t2 t3
      (snd (recordReflection resp tStamp tNewStart tStore tStart c)))) = False \<and>
    decision_locked (state (getState t1 t2 t3
      (snd (recordReflection resp tStamp tNewStart tStore tStart c)))) = False \<and>
    (snd (recordReflection resp' tStamp tNewStart tStore tStart c))
        \<lparr> storage := storage (snd (recordReflection resp tStamp tNewStart tStore tStart c)) \<rparr> =
      snd (recordReflection resp tStamp tNewStart tStore tStart c) \<and>
    cycle_reset (fst (recordReflection resp' tStamp tNewStart tStore tStart c)) =
      cycle_reset (fst (recordReflection resp tStamp tNewStart tStore tStart c)) \<and>
    should_display (fst (checkBrakeScreen tDay tPhase tBrake tStamp' rDisplay rHrv
      (snd (recordReflection resp tStamp tNewStart tStore tStart c)))) = False"
proof -
  let ?c' = "snd (recordReflection resp tStamp tNewStart tStore tStart c)"
  have start: "cycleStartDate ?c' = tStart"
    by (simp add: recordReflection_state)
  have log: "omtobe_reflections (storage ?c') =
      Some ((case omtobe_reflections (storage c) of None \<Rightarrow> [] | Some rs \<Rightarrow> rs) @
            [[(''timestamp'', Iso tStamp), (''response'', Str (reflectionStr resp))]])"
    by (simp add: recordReflection_state)
  have stored: "omtobe_cycle_start (storage ?c') = Some tStore"
    by (simp add: recordReflection_state)
  have day1: "getCurrentDay tStart ?c' = 1"
    by (simp add: getCurrentDay_def start js_rem_def)
  have resp1: "CycleReset.current_day
      (cycle_reset (fst (recordReflection resp tStamp tNewStart tStore tStart c))) = 1"
    by (simp add: recordReflection_def Let_def)
  have "coolingPeriodActive ?c' = coolingPeriodActive c"
    by (simp add: recordReflection_state)
  with assms(1) have cool: "coolingPeriodActive ?c' = False"
    by (simp add: run_cooling)
  then have cooling: "cooling_period_active (state (getState t1 t2 t3 ?c')) = False"
    by (simp add: getState_def Let_def)
  have locked: "decision_locked (state (getState t1 t2 t3 ?c')) = False"
    by (simp add: getState_def Let_def)
  have indep: "(snd (recordReflection resp' tStamp tNewStart tStore tStart c))
      \<lparr> storage := storage ?c' \<rparr> = ?c'"
    by (simp add: recordReflection_state)
  have indep_resp: "cycle_reset (fst (recordReflection resp' tStamp tNewStart tStore tStart c)) =
      cycle_reset (fst (recordReflection resp tStamp tNewStart tStore tStart c))"
    by (simp add: recordReflection_def Let_def)
  from assms(2,3) start have "getCurrentDay tPhase ?c' \<le> 2"
    by (intro first_two_days) simp_all
  then have silent: "should_display (fst (checkBrakeScreen tDay tPhase tBrake tStamp' rDisplay rHrv
      ?c')) = False"
    by (simp add: should_display_iff phase_intervention_iff)
  from log start stored day1 resp1 cooling locked indep indep_resp silent
  show ?thesis by blast
qed

theorem recordReflection_resets_cycle_witness:
  "day7Morning \<le> day7Morning \<and> day7Morning < day7Morning + 2 * 86400000 \<and>
   getCurrentDay day7Morning freshClient = 7 \<and>
   cycleStartDate (snd (recordReflection Skip day7Morning day7Morning day7Morning day7Morning
     (run [CheckBrakeScreen noonDay4 noonDay4 noonDay4 noonDay4 0.25 0.5,
           RecordDecision Delay noonDay4 noonDay4] (constructor 0 emptyStorage)))) = day7Morning \<and>
   getCurrentDay day7Morning
     (snd (recordReflection Skip day7Morning day7Morning day7Morning day7Morning
       (run [CheckBrakeScreen noonDay4 noonDay4 noonDay4 noonDay4 0.25 0.5,
             RecordDecision Delay noonDay4 noonDay4] (constructor 0 emptyStorage)))) = 1 \<and>
   should_display (fst (checkBrakeScreen day7Morning day7Morning day7Morning day7Morning 0.1 0
     (snd (recordReflection Skip day7Morning day7Morning day7Morning day7Morning
       (run [CheckBrakeScreen noonDay4 noonDay4 noonDay4 noonDay4 0.25 0.5,
             RecordDecision Delay noonDay4 noonDay4] (constructor 0 emptyStorage)))))) = False"
proof -
  have h1: "day7Morning \<le> day7Morning" by simp
  have h2: "day7Morning < day7Morning + 2 * 86400000" by simp
  have d7: "getCurrentDay day7Morning freshClient = 7"
    by (simp add: getCurrentDay_def js_rem_def freshClient_def constructor_def
        emptyStorage_def day7Morning_def)
  note inst = recordReflection_resets_cycle [
      where c = "run [CheckBrakeScreen noonDay4 noonDay4 noonDay4 noonDay4 0.25 0.5,
                      RecordDecision Delay noonDay4 noonDay4] (constructor 0 emptyStorage)"
        and calls = "[CheckBrakeScreen noonDay4 noonDay4 noonDay4 noonDay4 0.25 0.5,
                      RecordDecision Delay noonDay4 noonDay4]"
        and tNew = 0 and ls = emptyStorage and resp = Skip and resp' = Yes
        and tStamp = day7Morning and tNewStart = day7Morning and tStore = day7Morning
        and tStart = day7Morning and tPhase = day7Morning and tDay = day7Morning
        and tBrake = day7Morning and tStamp' = day7Morning and rDisplay = "0.1" and rHrv = 0
        and ?t1.0 = day7Morning and ?t2.0 = day7Morning and ?t3.0 = day7Morning,
      OF refl h1 h2]
  from inst h1 h2 d7 show ?thesis by blast
qed

end
